theory Spec2Isabelle
  imports Complex_Main "HOL-Library.Multiset" "HOL-Library.Word"
begin

section \<open>Data model (shared/schema.ts)\<close>

text \<open>
  A \<open>Date\<close> is modelled by what \<open>getTime()\<close> returns for it: the number of
  milliseconds since the epoch, an integer. JavaScript numbers that hold integers
  (page, limit, counts) are modelled as unbounded \<open>int\<close>.
\<close>

type_synonym timestamp = int

text \<open>
  \<open>InsertMovie\<close> is the type inferred from \<open>insertMovieSchema\<close>: the seven
  caller-supplied columns of the \<open>movies\<close> table. \<open>Movie\<close> is the full row, the
  same seven fields plus \<open>id\<close>, \<open>createdAt\<close> and \<open>updatedAt\<close>. The field \<open>id\<close> is
  written \<open>movie_id\<close>, since \<open>id\<close> is the identity function of HOL.
\<close>

record insertMovie =
  title :: string
  type :: string
  director :: string
  budget :: string
  location :: string
  duration :: string
  yearTime :: string

record movie = insertMovie +
  movie_id :: string
  createdAt :: timestamp
  updatedAt :: timestamp

text \<open>
  \<open>Partial<InsertMovie>\<close>: every field of \<open>InsertMovie\<close> optional. \<open>None\<close> is a
  property that the object does not have.
\<close>

record partialInsertMovie =
  p_title :: "string option"
  p_type :: "string option"
  p_director :: "string option"
  p_budget :: "string option"
  p_location :: "string option"
  p_duration :: "string option"
  p_yearTime :: "string option"

section \<open>The JavaScript built-ins the store uses\<close>

subsection \<open>Map\<close>

text \<open>
  A JavaScript \<open>Map\<close> iterates in insertion order, so it is an association list:
  \<open>set\<close> on a key that is present replaces the entry where it stands, \<open>set\<close> on a
  new key appends, \<open>delete\<close> removes the key.
\<close>

type_synonym ('k, 'v) js_map = "('k \<times> 'v) list"

fun map_set :: "'k \<Rightarrow> 'v \<Rightarrow> ('k, 'v) js_map \<Rightarrow> ('k, 'v) js_map" where
  "map_set k v [] = [(k, v)]"
| "map_set k v ((k', v') # rest) =
     (if k' = k then (k, v) # rest else (k', v') # map_set k v rest)"

definition map_get :: "('k, 'v) js_map \<Rightarrow> 'k \<Rightarrow> 'v option" where
  "map_get m k = map_of m k"

definition map_delete :: "'k \<Rightarrow> ('k, 'v) js_map \<Rightarrow> ('k, 'v) js_map" where
  "map_delete k m = filter (\<lambda>kv. fst kv \<noteq> k) m"

definition map_values :: "('k, 'v) js_map \<Rightarrow> 'v list" where
  "map_values m = map snd m"

definition map_size :: "('k, 'v) js_map \<Rightarrow> nat" where
  "map_size m = length m"

subsection \<open>Array.prototype.sort and Array.prototype.slice\<close>

text \<open>
  \<open>sort(compareFn)\<close> is a stable sort: \<open>a\<close> stays before \<open>b\<close> unless
  \<open>compareFn(a, b) > 0\<close>. The model is the stable insertion sort that inserts the
  elements from the right.
\<close>

fun insertBy :: "('a \<Rightarrow> 'a \<Rightarrow> int) \<Rightarrow> 'a \<Rightarrow> 'a list \<Rightarrow> 'a list" where
  "insertBy cmp x [] = [x]"
| "insertBy cmp x (y # ys) =
     (if cmp x y \<le> 0 then x # y # ys else y # insertBy cmp x ys)"

definition array_sort :: "('a \<Rightarrow> 'a \<Rightarrow> int) \<Rightarrow> 'a list \<Rightarrow> 'a list" where
  "array_sort cmp xs = foldr (insertBy cmp) xs []"

text \<open>
  \<open>slice(start, end)\<close> on integer arguments: a negative index counts from the end of
  the array, both indices are clamped to the array, and the elements from \<open>start\<close> up
  to, not including, \<open>end\<close> are returned.
\<close>

definition slice :: "'a list \<Rightarrow> int \<Rightarrow> int \<Rightarrow> 'a list" where
  "slice xs start end =
     (let len = int (length xs);
          k = (if start < 0 then max (len + start) 0 else min start len);
          final = (if end < 0 then max (len + end) 0 else min end len)
      in take (nat (final - k)) (drop (nat k) xs))"

section \<open>The record store (server/storage.ts)\<close>

record memStorage =
  movies :: "(string, movie) js_map"

definition newMemStorage :: memStorage where
  "newMemStorage = \<lparr>movies = []\<rparr>"

datatype js_error = Error string

definition compareCreatedAt :: "movie \<Rightarrow> movie \<Rightarrow> int" where
  "compareCreatedAt a b = createdAt b - createdAt a"

definition getAllMovies :: "memStorage \<Rightarrow> int \<Rightarrow> int \<Rightarrow> movie list" where
  "getAllMovies s page limit =
     (let skip = (page - 1) * limit;
          allMovies = array_sort compareCreatedAt (map_values (movies s))
      in slice allMovies skip (skip + limit))"

definition getMovie :: "memStorage \<Rightarrow> string \<Rightarrow> movie option" where
  "getMovie s ident = map_get (movies s) ident"

definition getMoviesCount :: "memStorage \<Rightarrow> nat" where
  "getMoviesCount s = map_size (movies s)"

text \<open>
  \<open>createMovie\<close> reads two values from its environment: the string that
  \<open>randomUUID()\<close> returns and the time of \<open>new Date()\<close>. Both are arguments here.
\<close>

definition createMovie ::
  "memStorage \<Rightarrow> string \<Rightarrow> timestamp \<Rightarrow> insertMovie \<Rightarrow> movie \<times> memStorage" where
  "createMovie s ident now insertMovie =
     (let movie = \<lparr>title = title insertMovie, type = type insertMovie,
                    director = director insertMovie, budget = budget insertMovie,
                    location = location insertMovie, duration = duration insertMovie,
                    yearTime = yearTime insertMovie,
                    movie_id = ident, createdAt = now, updatedAt = now\<rparr>
      in (movie, s\<lparr>movies := map_set ident movie (movies s)\<rparr>))"

text \<open>
  The object spread \<open>{...existingMovie, ...updateData, updatedAt: new Date()}\<close>: a
  property that \<open>updateData\<close> has replaces the one of \<open>existingMovie\<close>, and
  \<open>updatedAt\<close> is written last.
\<close>

definition spread :: "'a \<Rightarrow> 'a option \<Rightarrow> 'a" where
  "spread old new = (case new of None \<Rightarrow> old | Some v \<Rightarrow> v)"

definition updateMovie ::
  "memStorage \<Rightarrow> string \<Rightarrow> partialInsertMovie \<Rightarrow> timestamp
     \<Rightarrow> js_error + (movie \<times> memStorage)" where
  "updateMovie s ident updateData now =
     (case map_get (movies s) ident of
        None \<Rightarrow> Inl (Error ''Movie not found'')
      | Some existingMovie \<Rightarrow>
          (let updatedMovie = existingMovie
                 \<lparr>title := spread (title existingMovie) (p_title updateData),
                  type := spread (type existingMovie) (p_type updateData),
                  director := spread (director existingMovie) (p_director updateData),
                  budget := spread (budget existingMovie) (p_budget updateData),
                  location := spread (location existingMovie) (p_location updateData),
                  duration := spread (duration existingMovie) (p_duration updateData),
                  yearTime := spread (yearTime existingMovie) (p_yearTime updateData),
                  updatedAt := now\<rparr>
           in Inr (updatedMovie, s\<lparr>movies := map_set ident updatedMovie (movies s)\<rparr>)))"

definition deleteMovie :: "memStorage \<Rightarrow> string \<Rightarrow> memStorage" where
  "deleteMovie s ident = s\<lparr>movies := map_delete ident (movies s)\<rparr>"

section \<open>Request validation (zod schemas of shared/schema.ts and server/routes.ts)\<close>

text \<open>
  A request body is a JSON value. An object is the list of its properties; a key is
  looked up with \<open>map_of\<close>.
\<close>

datatype json =
    JNull
  | JBool bool
  | JNum rat
  | JStr string
  | JArr "json list"
  | JObj "(string \<times> json) list"

text \<open>
  The message of a validation issue: \<open>Custom\<close> is a message that the repository's
  schemas give; \<open>Builtin\<close> stands for the message text that zod itself supplies for
  the failed check. An issue is a path into the input and a message.
\<close>

datatype zmsg = Custom string | Builtin

type_synonym issue = "string list \<times> zmsg"

type_synonym zschema = "json option \<Rightarrow> zmsg list"

text \<open>
  \<open>z.string().min(lo, msg).max(hi)\<close> applied to the value of a property (\<open>None\<close>
  when the object has no such property): the messages of the issues it raises.
\<close>

definition zString :: "nat \<Rightarrow> zmsg \<Rightarrow> nat \<Rightarrow> zschema" where
  "zString lo lo_msg hi v =
     (case v of
        Some (JStr s) \<Rightarrow>
          (if length s < lo then [lo_msg] else []) @ (if hi < length s then [Builtin] else [])
      | _ \<Rightarrow> [Builtin])"

text \<open>\<open>z.enum(literals, { errorMap: () => ({ message }) })\<close>.\<close>

definition zEnum :: "string list \<Rightarrow> zmsg \<Rightarrow> zschema" where
  "zEnum literals msg v =
     (case v of
        Some (JStr s) \<Rightarrow> (if s \<in> set literals then [] else [msg])
      | _ \<Rightarrow> [msg])"

text \<open>\<open>.partial()\<close> makes each property optional: an absent one raises nothing.\<close>

definition zOptional :: "zschema \<Rightarrow> zschema" where
  "zOptional check v = (case v of None \<Rightarrow> [] | Some x \<Rightarrow> check (Some x))"

definition zObject_issues :: "(string \<times> zschema) list \<Rightarrow> (string \<times> json) list \<Rightarrow> issue list" where
  "zObject_issues shape props =
     concat (map (\<lambda>(k, check). map (\<lambda>m. ([k], m)) (check (map_of props k))) shape)"

text \<open>
  \<open>error.flatten().fieldErrors\<close>: the messages of the issues with a non-empty path,
  grouped under the first element of the path. An issue with the empty path goes to
  \<open>formErrors\<close>, which the routes do not send.
\<close>

fun push_error :: "string \<Rightarrow> zmsg \<Rightarrow> (string \<times> zmsg list) list \<Rightarrow> (string \<times> zmsg list) list" where
  "push_error k m [] = [(k, [m])]"
| "push_error k m ((k', ms) # rest) =
     (if k' = k then (k', ms @ [m]) # rest else (k', ms) # push_error k m rest)"

definition fieldErrors :: "issue list \<Rightarrow> (string \<times> zmsg list) list" where
  "fieldErrors issues =
     foldl (\<lambda>acc (path, m). case path of [] \<Rightarrow> acc | k # _ \<Rightarrow> push_error k m acc) [] issues"

definition formErrors :: "issue list \<Rightarrow> zmsg list" where
  "formErrors issues = map snd (filter (\<lambda>(path, m). path = []) issues)"

subsection \<open>insertMovieSchema\<close>

definition insertMovieShape :: "(string \<times> zschema) list" where
  "insertMovieShape =
     [(''title'', zString 2 (Custom ''Title must be at least 2 characters'') 255),
      (''type'', zEnum [''Movie'', ''TV Show''] (Custom ''Type must be either Movie or TV Show'')),
      (''director'', zString 1 (Custom ''Director is required'') 255),
      (''budget'', zString 1 (Custom ''Budget is required'') 100),
      (''location'', zString 1 (Custom ''Location is required'') 255),
      (''duration'', zString 1 (Custom ''Duration is required'') 50),
      (''yearTime'', zString 1 (Custom ''Year/Time is required'') 50)]"

definition prop_string :: "(string \<times> json) list \<Rightarrow> string \<Rightarrow> string option" where
  "prop_string props k = (case map_of props k of Some (JStr s) \<Rightarrow> Some s | _ \<Rightarrow> None)"

text \<open>
  \<open>safeParse\<close> returns the issues (\<open>Inl\<close>) or the parsed data (\<open>Inr\<close>); keys that
  the schema does not name are stripped. On the success path every property of the
  shape is a string, so the default of \<open>spread\<close> is never taken.
\<close>

definition insertMovieSchema_safeParse :: "json \<Rightarrow> issue list + insertMovie" where
  "insertMovieSchema_safeParse body =
     (case body of
        JObj props \<Rightarrow>
          (case zObject_issues insertMovieShape props of
             [] \<Rightarrow> Inr \<lparr>title = spread [] (prop_string props ''title''),
                        type = spread [] (prop_string props ''type''),
                        director = spread [] (prop_string props ''director''),
                        budget = spread [] (prop_string props ''budget''),
                        location = spread [] (prop_string props ''location''),
                        duration = spread [] (prop_string props ''duration''),
                        yearTime = spread [] (prop_string props ''yearTime'')\<rparr>
           | issues \<Rightarrow> Inl issues)
      | _ \<Rightarrow> Inl [([], Builtin)])"

subsection \<open>The update schema of the PUT route\<close>

text \<open>
  \<open>insertMovieSchema.partial().refine(data => Object.keys(data).length > 0, ...)\<close>.
  The refinement runs on the parsed object, whose keys are the properties of the
  shape that the body has; its issue has the empty path.
\<close>

definition object_keys_length :: "partialInsertMovie \<Rightarrow> nat" where
  "object_keys_length d =
     length (filter (\<lambda>v. v \<noteq> None)
       [p_title d, p_type d, p_director d, p_budget d, p_location d, p_duration d, p_yearTime d])"

definition updateSchema_safeParse :: "json \<Rightarrow> issue list + partialInsertMovie" where
  "updateSchema_safeParse body =
     (case body of
        JObj props \<Rightarrow>
          (case zObject_issues (map (\<lambda>(k, check). (k, zOptional check)) insertMovieShape) props of
             [] \<Rightarrow>
               (let d = \<lparr>p_title = prop_string props ''title'',
                         p_type = prop_string props ''type'',
                         p_director = prop_string props ''director'',
                         p_budget = prop_string props ''budget'',
                         p_location = prop_string props ''location'',
                         p_duration = prop_string props ''duration'',
                         p_yearTime = prop_string props ''yearTime''\<rparr>
                in if 0 < object_keys_length d then Inr d
                   else Inl [([], Custom ''At least one field must be provided for update'')])
           | issues \<Rightarrow> Inl issues)
      | _ \<Rightarrow> Inl [([], Builtin)])"

subsection \<open>paginationSchema and idParamSchema\<close>

text \<open>
  A query parameter after \<open>z.coerce.number()\<close> has applied \<open>Number(...)\<close> to it:
  absent (the default applies), \<open>NaN\<close>, an infinity (\<open>QInfinity True\<close> is
  \<open>+Infinity\<close>), a finite number that is not an integer, or an integer.
\<close>

datatype coerced = QAbsent | QNaN | QInfinity bool | QFraction rat | QInteger int

text \<open>
  \<open>z.coerce.number().int().min(1).default(1)\<close> and
  \<open>z.coerce.number().int().min(1).max(100).default(10)\<close>. \<open>NaN\<close> is not a number
  for zod and raises one issue. On a number every check runs and each failed one
  raises its issue: \<open>int()\<close> fails on an infinity and on a fraction, and the range
  checks are applied to them as well.
\<close>

definition pageSchema :: "coerced \<Rightarrow> zmsg list + int" where
  "pageSchema q =
     (case q of
        QAbsent \<Rightarrow> Inr 1
      | QNaN \<Rightarrow> Inl [Builtin]
      | QInfinity positive \<Rightarrow> Inl (Builtin # (if positive then [] else [Builtin]))
      | QFraction r \<Rightarrow> Inl (Builtin # (if r < 1 then [Builtin] else []))
      | QInteger n \<Rightarrow> (if n < 1 then Inl [Builtin] else Inr n))"

definition limitSchema :: "coerced \<Rightarrow> zmsg list + int" where
  "limitSchema q =
     (case q of
        QAbsent \<Rightarrow> Inr 10
      | QNaN \<Rightarrow> Inl [Builtin]
      | QInfinity positive \<Rightarrow> Inl [Builtin, Builtin]
      | QFraction r \<Rightarrow>
          Inl (Builtin # (if r < 1 then [Builtin] else []) @ (if 100 < r then [Builtin] else []))
      | QInteger n \<Rightarrow> (if n < 1 \<or> 100 < n then Inl [Builtin] else Inr n))"

definition paginationSchema_safeParse :: "coerced \<Rightarrow> coerced \<Rightarrow> issue list + (int \<times> int)" where
  "paginationSchema_safeParse qpage qlimit =
     (case (pageSchema qpage, limitSchema qlimit) of
        (Inr page, Inr limit) \<Rightarrow> Inr (page, limit)
      | (rp, rl) \<Rightarrow>
          Inl (map (\<lambda>m. ([''page''], m)) (case rp of Inl ms \<Rightarrow> ms | Inr _ \<Rightarrow> [])
               @ map (\<lambda>m. ([''limit''], m)) (case rl of Inl ms \<Rightarrow> ms | Inr _ \<Rightarrow> [])))"

text \<open>
  \<open>z.string().uuid()\<close> tests the string against zod's UUID pattern: five groups of
  8, 4, 4, 4 and 12 hexadecimal digits of either case, with a hyphen between groups.
\<close>

definition is_hex :: "char \<Rightarrow> bool" where
  "is_hex c = (c \<in> set ''0123456789abcdefABCDEF'')"

fun hex_groups :: "nat list \<Rightarrow> string \<Rightarrow> bool" where
  "hex_groups [] s = (s = [])"
| "hex_groups [n] s = (length s = n \<and> list_all is_hex s)"
| "hex_groups (n # ns) s =
     (n < length s \<and> list_all is_hex (take n s) \<and> s ! n = CHR ''-''
        \<and> hex_groups ns (drop (Suc n) s))"

definition uuidRegex :: "string \<Rightarrow> bool" where
  "uuidRegex s = hex_groups [8, 4, 4, 4, 12] s"

definition idParamSchema_safeParse :: "string \<Rightarrow> issue list + string" where
  "idParamSchema_safeParse ident =
     (if uuidRegex ident then Inr ident else Inl [([''id''], Custom ''Invalid movie ID format'')])"

subsection \<open>crypto.randomUUID\<close>

text \<open>
  \<open>randomUUID()\<close> draws sixteen random bytes, writes version 4 into the high half of
  byte 6 and the variant \<open>10\<close> into the top two bits of byte 8, and prints the bytes
  as lower-case hexadecimal digits in groups of 4, 2, 2, 2 and 6 bytes. The random
  bytes are the argument.
\<close>

definition hex_digit :: "nat \<Rightarrow> char" where
  "hex_digit n = ''0123456789abcdef'' ! n"

definition hex_byte :: "8 word \<Rightarrow> string" where
  "hex_byte b = [hex_digit (unat b div 16), hex_digit (unat b mod 16)]"

definition hex_bytes :: "8 word list \<Rightarrow> string" where
  "hex_bytes bs = concat (map hex_byte bs)"

definition randomUUID :: "8 word list \<Rightarrow> string" where
  "randomUUID rnd =
     (let b = rnd[6 := or (and (rnd ! 6) 0x0f) 0x40, 8 := or (and (rnd ! 8) 0x3f) 0x80]
      in hex_bytes (take 4 b) @ ''-'' @ hex_bytes (take 2 (drop 4 b)) @ ''-''
         @ hex_bytes (take 2 (drop 6 b)) @ ''-'' @ hex_bytes (take 2 (drop 8 b)) @ ''-''
         @ hex_bytes (take 6 (drop 10 b)))"

section \<open>The API layer (server/routes.ts)\<close>

text \<open>
  The pagination object of a list response. Its keys \<open>page\<close>, \<open>limit\<close>, \<open>total\<close>
  and \<open>pages\<close> carry the prefix \<open>pg_\<close>, leaving the plain names to the parameters
  of the functions; the parameter \<open>total\<close> is written \<open>total'\<close>, since \<open>total\<close> is a
  constant of HOL.
\<close>

record pagination =
  pg_page :: int
  pg_limit :: int
  pg_total :: int
  pg_pages :: int
  hasNext :: bool
  hasPrev :: bool

definition calculatePagination :: "int \<Rightarrow> int \<Rightarrow> int \<Rightarrow> pagination" where
  "calculatePagination page limit total' =
     (let pages = \<lceil>real_of_int total' / real_of_int limit\<rceil>
      in \<lparr>pg_page = page, pg_limit = limit, pg_total = total', pg_pages = pages,
          hasNext = (page < pages), hasPrev = (1 < page)\<rparr>)"

text \<open>
  What a handler sends: the HTTP status code of \<open>res.status(...)\<close> and the JSON
  envelope. A key that the envelope does not have is \<open>None\<close>; \<open>error_detail\<close> is the
  key \<open>error\<close> of a 500 response.
\<close>

datatype payload = Movies "movie list" | OneMovie movie | JsonNull

record response =
  code :: nat
  status :: bool
  message :: string
  data :: "payload option"
  pagination :: "pagination option"
  errors :: "(string \<times> zmsg list) list option"
  error_detail :: "string option"

definition failure :: "nat \<Rightarrow> string \<Rightarrow> issue list \<Rightarrow> response" where
  "failure c msg issues =
     \<lparr>code = c, status = False, message = msg, data = None, pagination = None,
      errors = Some (fieldErrors issues), error_detail = None\<rparr>"

definition notFound :: response where
  "notFound =
     \<lparr>code = 404, status = False, message = ''Movie not found'', data = None,
      pagination = None, errors = None, error_detail = None\<rparr>"

definition internalError :: "js_error \<Rightarrow> response" where
  "internalError e =
     (case e of Error m \<Rightarrow>
        \<lparr>code = 500, status = False, message = ''Internal server error'', data = None,
         pagination = None, errors = None, error_detail = Some m\<rparr>)"

definition success :: "nat \<Rightarrow> string \<Rightarrow> payload \<Rightarrow> pagination option \<Rightarrow> response" where
  "success c msg d p =
     \<lparr>code = c, status = True, message = msg, data = Some d, pagination = p,
      errors = None, error_detail = None\<rparr>"

text \<open>\<open>GET /api/movies?page=&limit=\<close>\<close>

definition get_movies :: "memStorage \<Rightarrow> coerced \<Rightarrow> coerced \<Rightarrow> response" where
  "get_movies storage qpage qlimit =
     (case paginationSchema_safeParse qpage qlimit of
        Inl issues \<Rightarrow> failure 400 ''Validation failed'' issues
      | Inr (page, limit) \<Rightarrow>
          (let movies = getAllMovies storage page limit;
               total = int (getMoviesCount storage);
               pagination = calculatePagination page limit total
           in success 200 ''Movies retrieved successfully'' (Movies movies) (Some pagination)))"

text \<open>\<open>POST /api/movies\<close>\<close>

definition post_movies ::
  "memStorage \<Rightarrow> string \<Rightarrow> timestamp \<Rightarrow> json \<Rightarrow> response \<times> memStorage" where
  "post_movies storage uuid now body =
     (case insertMovieSchema_safeParse body of
        Inl issues \<Rightarrow> (failure 400 ''Validation failed'' issues, storage)
      | Inr d \<Rightarrow>
          (case createMovie storage uuid now d of
             (movie, storage') \<Rightarrow>
               (success 201 ''Movie created successfully'' (OneMovie movie) None, storage')))"

text \<open>\<open>GET /api/movies/:id\<close>\<close>

definition get_movie :: "memStorage \<Rightarrow> string \<Rightarrow> response" where
  "get_movie storage param =
     (case idParamSchema_safeParse param of
        Inl issues \<Rightarrow> failure 400 ''Invalid movie ID format'' issues
      | Inr ident \<Rightarrow>
          (case getMovie storage ident of
             None \<Rightarrow> notFound
           | Some movie \<Rightarrow> success 200 ''Movie retrieved successfully'' (OneMovie movie) None))"

text \<open>\<open>PUT /api/movies/:id\<close>\<close>

definition put_movie ::
  "memStorage \<Rightarrow> timestamp \<Rightarrow> string \<Rightarrow> json \<Rightarrow> response \<times> memStorage" where
  "put_movie storage now param body =
     (case idParamSchema_safeParse param of
        Inl issues \<Rightarrow> (failure 400 ''Invalid movie ID format'' issues, storage)
      | Inr ident \<Rightarrow>
          (case updateSchema_safeParse body of
             Inl issues \<Rightarrow> (failure 400 ''Validation failed'' issues, storage)
           | Inr d \<Rightarrow>
               (case getMovie storage ident of
                  None \<Rightarrow> (notFound, storage)
                | Some existingMovie \<Rightarrow>
                    (case updateMovie storage ident d now of
                       Inl e \<Rightarrow> (internalError e, storage)
                     | Inr (updatedMovie, storage') \<Rightarrow>
                         (success 200 ''Movie updated successfully'' (OneMovie updatedMovie) None,
                          storage')))))"

text \<open>\<open>DELETE /api/movies/:id\<close>\<close>

definition delete_movie :: "memStorage \<Rightarrow> string \<Rightarrow> response \<times> memStorage" where
  "delete_movie storage param =
     (case idParamSchema_safeParse param of
        Inl issues \<Rightarrow> (failure 400 ''Invalid movie ID format'' issues, storage)
      | Inr ident \<Rightarrow>
          (case getMovie storage ident of
             None \<Rightarrow> (notFound, storage)
           | Some existingMovie \<Rightarrow>
               (success 200 ''Movie deleted successfully'' JsonNull None,
                deleteMovie storage ident)))"

section \<open>Sample data\<close>

definition dune :: insertMovie where
  "dune = \<lparr>title = ''Dune'', type = ''Movie'', director = ''Denis Villeneuve'',
           budget = ''$165M'', location = ''Jordan'', duration = ''155 min'',
           yearTime = ''2021''\<rparr>"

definition dune_body :: json where
  "dune_body = JObj [(''title'', JStr ''Dune''), (''type'', JStr ''Movie''),
                     (''director'', JStr ''Denis Villeneuve''), (''budget'', JStr ''$165M''),
                     (''location'', JStr ''Jordan''), (''duration'', JStr ''155 min''),
                     (''yearTime'', JStr ''2021'')]"

definition uuid_a :: string where
  "uuid_a = ''3f2b8c1e-5d4a-4b7c-9e1f-0a1b2c3d4e5f''"

definition uuid_b :: string where
  "uuid_b = ''7c9e6679-7425-40de-944b-e07fc1f90ae7''"

definition uuid_c :: string where
  "uuid_c = ''0b0e7a52-1c3d-4f6a-8b9c-d0e1f2a3b4c5''"

text \<open>Three entries, created at times 10, 20 and 20, in this order.\<close>

definition store3 :: memStorage where
  "store3 =
     snd (createMovie (snd (createMovie (snd (createMovie newMemStorage uuid_a 10 dune))
                                         uuid_b 20 dune))
                      uuid_c 20 dune)"

definition budget_only :: partialInsertMovie where
  "budget_only = \<lparr>p_title = None, p_type = None, p_director = None, p_budget = Some ''$1M'',
                   p_location = None, p_duration = None, p_yearTime = None\<rparr>"

text \<open>The issues of a \<open>safeParse\<close> result (\<open>result.error.issues\<close>), none on success.\<close>

definition issues_of :: "issue list + 'a \<Rightarrow> issue list" where
  "issues_of r = (case r of Inl issues \<Rightarrow> issues | Inr _ \<Rightarrow> [])"

definition tvshow_body :: json where
  "tvshow_body = JObj [(''title'', JStr ''Dune''), (''type'', JStr ''TVShow''),
                     (''director'', JStr ''Denis Villeneuve''), (''budget'', JStr ''$165M''),
                     (''location'', JStr ''Jordan''), (''duration'', JStr ''155 min''),
                     (''yearTime'', JStr ''2021'')]"

definition tv_show_body :: json where
  "tv_show_body = JObj [(''title'', JStr ''Dune''), (''type'', JStr ''TV Show''),
                     (''director'', JStr ''Denis Villeneuve''), (''budget'', JStr ''$165M''),
                     (''location'', JStr ''Jordan''), (''duration'', JStr ''155 min''),
                     (''yearTime'', JStr ''2021'')]"

section \<open>Reachable store states\<close>






definition zero_bytes :: "8 word list" where
  "zero_bytes = [0, 0, 0, 0, 0, 0, 0, 0, 0, 0, 0, 0, 0, 0, 0, 0]"


section \<open>Properties of the built-ins\<close>

lemma map_get_map_set: "map_get (map_set k v m) k' = (if k' = k then Some v else map_get m k')"
  by (induction m) (auto simp: map_get_def)

lemma map_get_map_delete: "map_get (map_delete k m) k' = (if k' = k then None else map_get m k')"
  by (induction m) (auto simp: map_get_def map_delete_def)

lemma map_delete_absent: "map_get m k = None \<Longrightarrow> map_delete k m = m"
proof -
  assume "map_get m k = None"
  then have "k \<notin> fst ` set m"
    by (simp add: map_get_def map_of_eq_None_iff)
  then have "\<forall>kv \<in> set m. fst kv \<noteq> k"
    by auto
  then show ?thesis
    by (simp add: map_delete_def)
qed

lemma insertBy_compareCreatedAt:
  "insertBy compareCreatedAt x ys = insort_key (\<lambda>m. - createdAt m) x ys"
  by (induction ys) (auto simp: compareCreatedAt_def)

lemma array_sort_compareCreatedAt:
  "array_sort compareCreatedAt xs = sort_key (\<lambda>m. - createdAt m) xs"
proof -
  have "insertBy compareCreatedAt = insort_key (\<lambda>m. - createdAt m)"
    by (intro ext) (rule insertBy_compareCreatedAt)
  then show ?thesis
    by (simp add: array_sort_def sort_key_def)
qed

lemma sorted_desc_createdAt:
  "sorted_wrt (\<lambda>a b. createdAt b \<le> createdAt a) (array_sort compareCreatedAt xs)"
proof -
  have "sorted (map (\<lambda>m. - createdAt m) (sort_key (\<lambda>m. - createdAt m) xs))"
    by (rule sorted_sort_key)
  then show ?thesis
    by (simp add: array_sort_compareCreatedAt sorted_map)
qed

lemma stable_createdAt:
  "filter (\<lambda>m. createdAt m = t) (array_sort compareCreatedAt xs)
     = filter (\<lambda>m. createdAt m = t) xs"
proof -
  have "filter (\<lambda>m. - createdAt m = - t) (sort_key (\<lambda>m. - createdAt m) xs)
          = filter (\<lambda>m. - createdAt m = - t) xs"
    by (rule sort_key_stable)
  then show ?thesis
    by (simp add: array_sort_compareCreatedAt)
qed

lemma mset_array_sort: "mset (array_sort compareCreatedAt xs) = mset xs"
  by (simp add: array_sort_compareCreatedAt)

lemma length_array_sort: "length (array_sort compareCreatedAt xs) = length xs"
  by (simp add: array_sort_compareCreatedAt)

lemma slice_nonneg:
  "0 \<le> start \<Longrightarrow> 0 \<le> n \<Longrightarrow> slice xs start (start + n) = take (nat n) (drop (nat start) xs)"
proof -
  assume s: "0 \<le> start" and n: "0 \<le> n"
  let ?len = "int (length xs)"
  show ?thesis
  proof (cases "start \<le> ?len")
    case True
    have "take (nat (min (start + n) ?len - start)) (drop (nat start) xs)
            = take (nat n) (drop (nat start) xs)"
    proof (cases "start + n \<le> ?len")
      case True
      then show ?thesis by (simp add: min_def)
    next
      case False
      then have "length (drop (nat start) xs) \<le> nat (?len - start)"
        and "nat (?len - start) \<le> nat n"
        using s by auto
      with False show ?thesis by (simp add: min_def)
    qed
    with True s n show ?thesis
      by (simp add: slice_def Let_def min_def)
  next
    case False
    then have "length xs \<le> nat start" by linarith
    then show ?thesis
      using s n False by (simp add: slice_def Let_def min_def)
  qed
qed

section \<open>Listing (claims on getAllMovies)\<close>

lemma getAllMovies_take_drop:
  assumes "1 \<le> page" and "1 \<le> limit"
  shows "getAllMovies s page limit
           = take (nat limit) (drop (nat ((page - 1) * limit))
               (array_sort compareCreatedAt (map_values (movies s))))"
proof -
  have "0 \<le> (page - 1) * limit" and "0 \<le> limit"
    using assms by simp_all
  then show ?thesis
    by (simp add: getAllMovies_def Let_def slice_nonneg)
qed

text \<open>
  C1: for positive integers \<open>page\<close> and \<open>limit\<close>, \<open>getAllMovies\<close> returns a window of
  the stored entries put in \<open>createdAt\<close>-descending order with ties left in insertion
  order (the ordered list has the stored entries as its elements, each as often as
  stored, is descending, and keeps the entries of any one \<open>createdAt\<close> in their stored
  order): the window starts at offset \<open>(page - 1) * limit\<close>, has at most \<open>limit\<close>
  items, and is empty when the offset is at least the number of stored entries.
\<close>

theorem getAllMovies_page:
  assumes "1 \<le> page" and "1 \<le> limit"
  shows "\<exists>ordered.
           mset ordered = mset (map_values (movies s))
         \<and> sorted_wrt (\<lambda>a b. createdAt b \<le> createdAt a) ordered
         \<and> (\<forall>t. filter (\<lambda>m. createdAt m = t) ordered
                  = filter (\<lambda>m. createdAt m = t) (map_values (movies s)))
         \<and> getAllMovies s page limit
             = take (nat limit) (drop (nat ((page - 1) * limit)) ordered)
         \<and> int (length (getAllMovies s page limit)) \<le> limit
         \<and> (int (getMoviesCount s) \<le> (page - 1) * limit
               \<longrightarrow> getAllMovies s page limit = [])"
proof -
  let ?ordered = "array_sort compareCreatedAt (map_values (movies s))"
  have window: "getAllMovies s page limit
                  = take (nat limit) (drop (nat ((page - 1) * limit)) ?ordered)"
    using assms by (rule getAllMovies_take_drop)
  have len: "int (length (getAllMovies s page limit)) \<le> limit"
    using assms by (simp add: window)
  have beyond: "getAllMovies s page limit = []"
    if "int (getMoviesCount s) \<le> (page - 1) * limit"
  proof -
    have "length ?ordered \<le> nat ((page - 1) * limit)"
      using that
      by (simp add: length_array_sort getMoviesCount_def map_size_def map_values_def)
    then show ?thesis by (simp add: window)
  qed
  show ?thesis
    using mset_array_sort sorted_desc_createdAt stable_createdAt window len beyond
    by (intro exI [of _ ?ordered]) blast
qed

lemma store3_count: "getMoviesCount store3 = 3"
  by (simp add: getMoviesCount_def map_size_def store3_def createMovie_def newMemStorage_def
        Let_def uuid_a_def uuid_b_def uuid_c_def)

lemma store3_sorted:
  "map movie_id (array_sort compareCreatedAt (map_values (movies store3)))
     = [uuid_b, uuid_c, uuid_a]"
  by (simp add: store3_def createMovie_def newMemStorage_def array_sort_def map_values_def
        Let_def compareCreatedAt_def uuid_a_def uuid_b_def uuid_c_def)

lemma store3_page:
  assumes "1 \<le> p"
  shows "map movie_id (getAllMovies store3 p 2)
           = take 2 (drop (nat ((p - 1) * 2)) [uuid_b, uuid_c, uuid_a])"
proof -
  have "map movie_id (getAllMovies store3 p 2)
          = take 2 (drop (nat ((p - 1) * 2))
              (map movie_id (array_sort compareCreatedAt (map_values (movies store3)))))"
    using assms by (simp add: getAllMovies_take_drop take_map drop_map)
  then show ?thesis
    by (simp only: store3_sorted)
qed

theorem getAllMovies_page_witness:
  "(1::int) \<le> 2 \<and> (1::int) \<le> 2
     \<and> map movie_id (getAllMovies store3 1 2) = [uuid_b, uuid_c]
     \<and> map movie_id (getAllMovies store3 2 2) = [uuid_a]
     \<and> getAllMovies store3 3 2 = []"
proof -
  have first: "map movie_id (getAllMovies store3 1 2) = [uuid_b, uuid_c]"
    and second: "map movie_id (getAllMovies store3 2 2) = [uuid_a]"
    and third: "map movie_id (getAllMovies store3 3 2) = []"
    by (simp_all add: store3_page)
  from third have "getAllMovies store3 3 2 = []"
    by simp
  then show ?thesis
    using getAllMovies_page [of 2 2 store3] first second by simp
qed

section \<open>Walking all pages\<close>

lemma concat_windows:
  "concat (map (\<lambda>i. take n (drop (i * n) xs)) [0..<k]) = take (k * n) xs"
proof (induction k)
  case 0
  then show ?case by simp
next
  case (Suc k)
  have "Suc k * n = k * n + n"
    by simp
  then have "take (Suc k * n) xs = take (k * n) xs @ take n (drop (k * n) xs)"
    by (simp only: take_add)
  with Suc show ?case by simp
qed

lemma upto_pages: "[1..int k] = map (\<lambda>i. int (Suc i)) [0..<k]"
proof (induction k)
  case 0
  then show ?case by simp
next
  case (Suc k)
  have "[1..int (Suc k)] = [1..int k] @ [int (Suc k)]"
    by (simp add: upto_rec2)
  with Suc show ?case by simp
qed

lemma count_le_pages_limit:
  assumes "1 \<le> limit"
  shows "n \<le> \<lceil>real_of_int n / real_of_int limit\<rceil> * limit"
proof -
  have pos: "0 < real_of_int limit" using assms by simp
  have "real_of_int n / real_of_int limit \<le> real_of_int \<lceil>real_of_int n / real_of_int limit\<rceil>"
    by (rule le_of_int_ceiling)
  then have "real_of_int n \<le> real_of_int \<lceil>real_of_int n / real_of_int limit\<rceil> * real_of_int limit"
    using pos pos_divide_le_eq [of "real_of_int limit" "real_of_int n"] by blast
  then have "real_of_int n \<le> real_of_int (\<lceil>real_of_int n / real_of_int limit\<rceil> * limit)"
    by (simp only: of_int_mult)
  then show ?thesis
    by (simp only: of_int_le_iff)
qed

lemma pages_nonneg:
  assumes "1 \<le> limit" and "0 \<le> n"
  shows "0 \<le> \<lceil>real_of_int n / real_of_int limit\<rceil>"
proof -
  have "0 \<le> real_of_int n / real_of_int limit"
    using assms by simp
  then show ?thesis by linarith
qed

lemma walk_all_pages:
  assumes "1 \<le> limit"
  shows "concat (map (\<lambda>p. getAllMovies s p limit)
                   [1..\<lceil>real (getMoviesCount s) / real_of_int limit\<rceil>])
           = array_sort compareCreatedAt (map_values (movies s))"
proof -
  let ?ordered = "array_sort compareCreatedAt (map_values (movies s))"
  let ?N = "int (getMoviesCount s)"
  let ?P = "\<lceil>real_of_int ?N / real_of_int limit\<rceil>"
  define k where "k = nat ?P"
  have P: "?P = int k"
    using pages_nonneg [OF assms, of ?N] by (simp add: k_def)
  have page: "getAllMovies s (int (Suc i)) limit = take (nat limit) (drop (i * nat limit) ?ordered)" for i
  proof -
    have "nat ((int (Suc i) - 1) * limit) = i * nat limit"
      using assms by (simp add: nat_mult_distrib)
    then show ?thesis
      using getAllMovies_take_drop [of "int (Suc i)" limit s] assms by simp
  qed
  have "?N \<le> ?P * limit"
    using assms by (rule count_le_pages_limit)
  then have "?N \<le> int k * limit"
    by (simp only: P)
  moreover have "int k * limit = int (k * nat limit)"
    using assms by simp
  ultimately have "?N \<le> int (k * nat limit)"
    by (simp only:)
  then have "getMoviesCount s \<le> k * nat limit"
    by (simp only: of_nat_le_iff)
  then have enough: "length ?ordered \<le> k * nat limit"
    by (simp add: length_array_sort getMoviesCount_def map_size_def map_values_def)
  have "concat (map (\<lambda>p. getAllMovies s p limit) [1..?P])
          = concat (map (\<lambda>i. take (nat limit) (drop (i * nat limit) ?ordered)) [0..<k])"
    using P by (simp add: upto_pages comp_def page del: of_nat_Suc)
  also have "\<dots> = take (k * nat limit) ?ordered"
    by (rule concat_windows)
  also have "\<dots> = ?ordered"
    using enough by simp
  finally show ?thesis by simp
qed

text \<open>
  C3: for a fixed store with \<open>N\<close> entries and a page size \<open>limit \<ge> 1\<close>, the pages
  \<open>1, 2, \<dots>, \<lceil>N / limit\<rceil>\<close> of \<open>getAllMovies\<close>, concatenated, are the stored
  entries, each exactly as often as stored, in \<open>createdAt\<close>-descending order (ties in
  insertion order).
\<close>

theorem pagination_walk_complete:
  assumes "1 \<le> limit"
  shows "\<exists>ordered.
           mset ordered = mset (map_values (movies s))
         \<and> sorted_wrt (\<lambda>a b. createdAt b \<le> createdAt a) ordered
         \<and> (\<forall>t. filter (\<lambda>m. createdAt m = t) ordered
                  = filter (\<lambda>m. createdAt m = t) (map_values (movies s)))
         \<and> concat (map (\<lambda>p. getAllMovies s p limit)
                      [1..\<lceil>real (getMoviesCount s) / real_of_int limit\<rceil>]) = ordered"
  using mset_array_sort sorted_desc_createdAt stable_createdAt walk_all_pages [OF assms]
  by (intro exI [of _ "array_sort compareCreatedAt (map_values (movies s))"]) blast

theorem pagination_walk_complete_witness:
  "(1::int) \<le> 2
     \<and> map movie_id (concat (map (\<lambda>p. getAllMovies store3 p 2) [1..2])) = [uuid_b, uuid_c, uuid_a]"
proof -
  have pages: "\<lceil>real (getMoviesCount store3) / real_of_int 2\<rceil> = 2"
    by (simp add: store3_count)
  show ?thesis
    using pagination_walk_complete [of 2 store3] walk_all_pages [of 2 store3] pages store3_sorted
    by simp
qed

section \<open>The list route\<close>

lemma beyond_last_page:
  assumes "1 \<le> page" and "1 \<le> limit"
    and "\<lceil>real (getMoviesCount s) / real_of_int limit\<rceil> < page"
  shows "getAllMovies s page limit = []"
proof -
  let ?N = "int (getMoviesCount s)"
  let ?P = "\<lceil>real_of_int ?N / real_of_int limit\<rceil>"
  have "?P \<le> page - 1"
    using assms(3) by simp
  then have "?P * limit \<le> (page - 1) * limit"
    using assms(2) by (intro mult_right_mono) simp_all
  moreover have "?N \<le> ?P * limit"
    using assms(2) by (rule count_le_pages_limit)
  ultimately have "?N \<le> (page - 1) * limit"
    by (rule order_trans [rotated])
  then have "length (array_sort compareCreatedAt (map_values (movies s)))
               \<le> nat ((page - 1) * limit)"
    by (simp add: length_array_sort getMoviesCount_def map_size_def map_values_def)
  then show ?thesis
    using assms(1,2) by (simp add: getAllMovies_take_drop)
qed

lemma get_movies_valid:
  assumes "1 \<le> page" and "1 \<le> limit" and "limit \<le> 100"
  shows "get_movies s (QInteger page) (QInteger limit)
           = success 200 ''Movies retrieved successfully'' (Movies (getAllMovies s page limit))
               (Some (calculatePagination page limit (int (getMoviesCount s))))"
  using assms
  by (simp add: get_movies_def paginationSchema_safeParse_def pageSchema_def limitSchema_def Let_def)

text \<open>
  C2: a list request with \<open>page \<ge> 1\<close> and \<open>1 \<le> limit \<le> 100\<close> is answered with 200,
  the page of \<open>getAllMovies\<close> as data, and the pagination object \<open>{page, limit,
  total: store count, pages: \<lceil>total / limit\<rceil>, hasNext: page < pages, hasPrev: page > 1}\<close>;
  for a page beyond the last one the data is the empty list; on the empty store with
  page 1 and limit 10 the answer is 200 with no data, total 0 and hasNext false.
\<close>

theorem get_movies_pagination:
  assumes "1 \<le> page" and "1 \<le> limit" and "limit \<le> 100"
  shows "code (get_movies s (QInteger page) (QInteger limit)) = 200
       \<and> data (get_movies s (QInteger page) (QInteger limit))
           = Some (Movies (getAllMovies s page limit))
       \<and> pagination (get_movies s (QInteger page) (QInteger limit))
           = Some \<lparr>pg_page = page, pg_limit = limit, pg_total = int (getMoviesCount s),
                   pg_pages = \<lceil>real (getMoviesCount s) / real_of_int limit\<rceil>,
                   hasNext = (page < \<lceil>real (getMoviesCount s) / real_of_int limit\<rceil>),
                   hasPrev = (1 < page)\<rparr>
       \<and> (\<lceil>real (getMoviesCount s) / real_of_int limit\<rceil> < page
             \<longrightarrow> data (get_movies s (QInteger page) (QInteger limit)) = Some (Movies []))
       \<and> code (get_movies newMemStorage (QInteger 1) (QInteger 10)) = 200
       \<and> data (get_movies newMemStorage (QInteger 1) (QInteger 10)) = Some (Movies [])
       \<and> map_option pg_total (pagination (get_movies newMemStorage (QInteger 1) (QInteger 10)))
           = Some 0
       \<and> map_option hasNext (pagination (get_movies newMemStorage (QInteger 1) (QInteger 10)))
           = Some False"
proof -
  let ?r = "get_movies s (QInteger page) (QInteger limit)"
  let ?e = "get_movies newMemStorage (QInteger 1) (QInteger 10)"
  have r: "?r = success 200 ''Movies retrieved successfully'' (Movies (getAllMovies s page limit))
               (Some (calculatePagination page limit (int (getMoviesCount s))))"
    using assms by (rule get_movies_valid)
  have c: "code ?r = 200" and d: "data ?r = Some (Movies (getAllMovies s page limit))"
    by (simp_all add: r success_def)
  have p: "pagination ?r
           = Some \<lparr>pg_page = page, pg_limit = limit, pg_total = int (getMoviesCount s),
                   pg_pages = \<lceil>real (getMoviesCount s) / real_of_int limit\<rceil>,
                   hasNext = (page < \<lceil>real (getMoviesCount s) / real_of_int limit\<rceil>),
                   hasPrev = (1 < page)\<rparr>"
    by (simp add: r success_def calculatePagination_def Let_def)
  have e: "data ?r = Some (Movies [])"
    if "\<lceil>real (getMoviesCount s) / real_of_int limit\<rceil> < page"
    using beyond_last_page [OF assms(1,2) that] by (simp add: d)
  have e0: "?e = success 200 ''Movies retrieved successfully''
                    (Movies (getAllMovies newMemStorage 1 10))
                    (Some (calculatePagination 1 10 (int (getMoviesCount newMemStorage))))"
    by (rule get_movies_valid) simp_all
  have n0: "getMoviesCount newMemStorage = 0"
    by (simp add: getMoviesCount_def map_size_def newMemStorage_def)
  have l0: "getAllMovies newMemStorage 1 10 = []"
    by (simp add: getAllMovies_take_drop newMemStorage_def map_values_def array_sort_def)
  have c0: "code ?e = 200" and d0: "data ?e = Some (Movies [])"
    by (simp_all add: e0 success_def l0)
  have t0: "map_option pg_total (pagination ?e) = Some 0"
    and h0: "map_option hasNext (pagination ?e) = Some False"
    by (simp_all add: e0 success_def n0 calculatePagination_def)
  show ?thesis
    using c d p e c0 d0 t0 h0 by blast
qed

theorem get_movies_pagination_witness:
  "(1::int) \<le> 2 \<and> (1::int) \<le> 2 \<and> (2::int) \<le> 100
     \<and> code (get_movies store3 (QInteger 2) (QInteger 2)) = 200
     \<and> pagination (get_movies store3 (QInteger 2) (QInteger 2))
         = Some \<lparr>pg_page = 2, pg_limit = 2, pg_total = 3, pg_pages = 2,
                 hasNext = False, hasPrev = True\<rparr>
     \<and> data (get_movies store3 (QInteger 3) (QInteger 2)) = Some (Movies [])"
proof -
  have pages: "\<lceil>real (getMoviesCount store3) / real_of_int 2\<rceil> = 2"
    by (simp add: store3_count)
  have h1: "(1::int) \<le> 2" and h2: "(2::int) \<le> 100" and h3: "(1::int) \<le> 3"
    by simp_all
  have "\<lceil>real (getMoviesCount store3) / real_of_int 2\<rceil> < 3"
    by (simp only: pages)
  then have beyond: "data (get_movies store3 (QInteger 3) (QInteger 2)) = Some (Movies [])"
    using get_movies_pagination [OF h3 h1 h2, of store3] by blast
  show ?thesis
    using get_movies_pagination [OF h1 h1 h2, of store3] pages beyond
    by (simp add: store3_count)
qed

lemma hasNext_iff_more_entries:
  assumes "1 \<le> limit"
  shows "hasNext (calculatePagination page limit n) \<longleftrightarrow> page * limit < n"
proof -
  have pos: "0 < real_of_int limit" using assms by simp
  have "page < \<lceil>real_of_int n / real_of_int limit\<rceil>
          \<longleftrightarrow> real_of_int page < real_of_int n / real_of_int limit"
    by (rule less_ceiling_iff)
  also have "\<dots> \<longleftrightarrow> real_of_int page * real_of_int limit < real_of_int n"
    using pos by (rule pos_less_divide_eq)
  also have "\<dots> \<longleftrightarrow> page * limit < n"
    by (simp only: of_int_mult [symmetric] of_int_less_iff)
  finally show ?thesis
    by (simp add: calculatePagination_def Let_def)
qed

section \<open>Create, update and delete in the store\<close>

lemma getMovie_createMovie:
  "getMovie (snd (createMovie s uuid now d)) k
     = (if k = uuid then Some (fst (createMovie s uuid now d)) else getMovie s k)"
  by (simp add: getMovie_def createMovie_def Let_def map_get_map_set)

lemma getMovie_deleteMovie:
  "getMovie (deleteMovie s ident) k = (if k = ident then None else getMovie s k)"
  by (simp add: getMovie_def deleteMovie_def map_get_map_delete)

lemma deleteMovie_absent: "getMovie s ident = None \<Longrightarrow> deleteMovie s ident = s"
  by (simp add: getMovie_def deleteMovie_def map_delete_absent)

lemma updateMovie_absent:
  "getMovie s ident = None \<Longrightarrow> updateMovie s ident upd now = Inl (Error ''Movie not found'')"
  by (simp add: getMovie_def updateMovie_def)

lemma updateMovie_present:
  assumes "getMovie s ident = Some existing"
  shows "updateMovie s ident upd now =
           Inr (existing\<lparr>title := spread (title existing) (p_title upd),
                         type := spread (type existing) (p_type upd),
                         director := spread (director existing) (p_director upd),
                         budget := spread (budget existing) (p_budget upd),
                         location := spread (location existing) (p_location upd),
                         duration := spread (duration existing) (p_duration upd),
                         yearTime := spread (yearTime existing) (p_yearTime upd),
                         updatedAt := now\<rparr>,
                s\<lparr>movies := map_set ident
                     (existing\<lparr>title := spread (title existing) (p_title upd),
                         type := spread (type existing) (p_type upd),
                         director := spread (director existing) (p_director upd),
                         budget := spread (budget existing) (p_budget upd),
                         location := spread (location existing) (p_location upd),
                         duration := spread (duration existing) (p_duration upd),
                         yearTime := spread (yearTime existing) (p_yearTime upd),
                         updatedAt := now\<rparr>) (movies s)\<rparr>)"
  using assms by (simp add: getMovie_def updateMovie_def Let_def)

text \<open>
  C4: when the id is present, \<open>updateMovie\<close> returns an entry, stores it under the
  id (leaving every other id as it was), and in it each of the seven fields is the
  supplied one if the update supplies it and the existing one otherwise, \<open>id\<close> and
  \<open>createdAt\<close> are the existing ones, and \<open>updatedAt\<close> is the current time; when the id
  is absent, \<open>updateMovie\<close> fails with the error \<open>Movie not found\<close>.
\<close>

theorem updateMovie_merge:
  "(\<forall>existing. getMovie s ident = Some existing \<longrightarrow>
       (\<exists>updated s'.
            updateMovie s ident upd now = Inr (updated, s')
          \<and> getMovie s' ident = Some updated
          \<and> (\<forall>k. k \<noteq> ident \<longrightarrow> getMovie s' k = getMovie s k)
          \<and> title updated = (case p_title upd of Some v \<Rightarrow> v | None \<Rightarrow> title existing)
          \<and> type updated = (case p_type upd of Some v \<Rightarrow> v | None \<Rightarrow> type existing)
          \<and> director updated = (case p_director upd of Some v \<Rightarrow> v | None \<Rightarrow> director existing)
          \<and> budget updated = (case p_budget upd of Some v \<Rightarrow> v | None \<Rightarrow> budget existing)
          \<and> location updated = (case p_location upd of Some v \<Rightarrow> v | None \<Rightarrow> location existing)
          \<and> duration updated = (case p_duration upd of Some v \<Rightarrow> v | None \<Rightarrow> duration existing)
          \<and> yearTime updated = (case p_yearTime upd of Some v \<Rightarrow> v | None \<Rightarrow> yearTime existing)
          \<and> movie_id updated = movie_id existing
          \<and> createdAt updated = createdAt existing
          \<and> updatedAt updated = now))
   \<and> (getMovie s ident = None \<longrightarrow> updateMovie s ident upd now = Inl (Error ''Movie not found''))"
proof (intro conjI allI impI)
  fix existing
  assume present: "getMovie s ident = Some existing"
  let ?updated = "existing\<lparr>title := spread (title existing) (p_title upd),
                         type := spread (type existing) (p_type upd),
                         director := spread (director existing) (p_director upd),
                         budget := spread (budget existing) (p_budget upd),
                         location := spread (location existing) (p_location upd),
                         duration := spread (duration existing) (p_duration upd),
                         yearTime := spread (yearTime existing) (p_yearTime upd),
                         updatedAt := now\<rparr>"
  let ?s' = "s\<lparr>movies := map_set ident ?updated (movies s)\<rparr>"
  have "updateMovie s ident upd now = Inr (?updated, ?s')"
    using present by (rule updateMovie_present)
  moreover have "getMovie ?s' ident = Some ?updated"
    by (simp add: getMovie_def map_get_map_set)
  moreover have "\<forall>k. k \<noteq> ident \<longrightarrow> getMovie ?s' k = getMovie s k"
    by (simp add: getMovie_def map_get_map_set)
  moreover have "title ?updated = (case p_title upd of Some v \<Rightarrow> v | None \<Rightarrow> title existing)"
    and "type ?updated = (case p_type upd of Some v \<Rightarrow> v | None \<Rightarrow> type existing)"
    and "director ?updated = (case p_director upd of Some v \<Rightarrow> v | None \<Rightarrow> director existing)"
    and "budget ?updated = (case p_budget upd of Some v \<Rightarrow> v | None \<Rightarrow> budget existing)"
    and "location ?updated = (case p_location upd of Some v \<Rightarrow> v | None \<Rightarrow> location existing)"
    and "duration ?updated = (case p_duration upd of Some v \<Rightarrow> v | None \<Rightarrow> duration existing)"
    and "yearTime ?updated = (case p_yearTime upd of Some v \<Rightarrow> v | None \<Rightarrow> yearTime existing)"
    by (simp_all add: spread_def)
  moreover have "movie_id ?updated = movie_id existing"
    and "createdAt ?updated = createdAt existing" and "updatedAt ?updated = now"
    by simp_all
  ultimately show "\<exists>updated s'.
            updateMovie s ident upd now = Inr (updated, s')
          \<and> getMovie s' ident = Some updated
          \<and> (\<forall>k. k \<noteq> ident \<longrightarrow> getMovie s' k = getMovie s k)
          \<and> title updated = (case p_title upd of Some v \<Rightarrow> v | None \<Rightarrow> title existing)
          \<and> type updated = (case p_type upd of Some v \<Rightarrow> v | None \<Rightarrow> type existing)
          \<and> director updated = (case p_director upd of Some v \<Rightarrow> v | None \<Rightarrow> director existing)
          \<and> budget updated = (case p_budget upd of Some v \<Rightarrow> v | None \<Rightarrow> budget existing)
          \<and> location updated = (case p_location upd of Some v \<Rightarrow> v | None \<Rightarrow> location existing)
          \<and> duration updated = (case p_duration upd of Some v \<Rightarrow> v | None \<Rightarrow> duration existing)
          \<and> yearTime updated = (case p_yearTime upd of Some v \<Rightarrow> v | None \<Rightarrow> yearTime existing)
          \<and> movie_id updated = movie_id existing
          \<and> createdAt updated = createdAt existing
          \<and> updatedAt updated = now"
    by blast
next
  assume "getMovie s ident = None"
  then show "updateMovie s ident upd now = Inl (Error ''Movie not found'')"
    by (rule updateMovie_absent)
qed

lemma store3_get_a:
  "getMovie store3 uuid_a
     = Some \<lparr>title = ''Dune'', type = ''Movie'', director = ''Denis Villeneuve'',
             budget = ''$165M'', location = ''Jordan'', duration = ''155 min'',
             yearTime = ''2021'', movie_id = uuid_a, createdAt = 10, updatedAt = 10\<rparr>"
  by (simp add: getMovie_def map_get_def store3_def createMovie_def newMemStorage_def Let_def
        dune_def uuid_a_def uuid_b_def uuid_c_def)

theorem updateMovie_merge_witness:
  "getMovie store3 uuid_a \<noteq> None
     \<and> map_sum id fst (updateMovie store3 uuid_a budget_only 30)
         = Inr \<lparr>title = ''Dune'', type = ''Movie'', director = ''Denis Villeneuve'',
                budget = ''$1M'', location = ''Jordan'', duration = ''155 min'',
                yearTime = ''2021'', movie_id = uuid_a, createdAt = 10, updatedAt = 30\<rparr>
     \<and> getMovie newMemStorage uuid_a = None
     \<and> updateMovie newMemStorage uuid_a budget_only 30 = Inl (Error ''Movie not found'')"
proof -
  have absent: "getMovie newMemStorage uuid_a = None"
    by (simp add: getMovie_def map_get_def newMemStorage_def)
  obtain updated s' where
    "updateMovie store3 uuid_a budget_only 30 = Inr (updated, s')"
    and "title updated = ''Dune''" and "type updated = ''Movie''"
    and "director updated = ''Denis Villeneuve''" and "budget updated = ''$1M''"
    and "location updated = ''Jordan''" and "duration updated = ''155 min''"
    and "yearTime updated = ''2021''" and "movie_id updated = uuid_a"
    and "createdAt updated = 10" and "updatedAt updated = 30"
    using updateMovie_merge [of store3 uuid_a budget_only 30] store3_get_a
    by (auto simp: budget_only_def)
  moreover have "updateMovie newMemStorage uuid_a budget_only 30 = Inl (Error ''Movie not found'')"
    using updateMovie_merge [of newMemStorage uuid_a budget_only 30] absent by blast
  ultimately show ?thesis
    using absent store3_get_a by (cases updated) simp
qed

text \<open>
  C8: the entry that \<open>createMovie\<close> returns has the seven submitted fields, the
  generated id and both timestamps equal to the current time, and \<open>getMovie\<close> with
  the returned id yields that entry.
\<close>

theorem create_then_get:
  "getMovie (snd (createMovie s uuid now d)) (movie_id (fst (createMovie s uuid now d)))
     = Some (fst (createMovie s uuid now d))
   \<and> fst (createMovie s uuid now d)
       = \<lparr>title = title d, type = type d, director = director d, budget = budget d,
          location = location d, duration = duration d, yearTime = yearTime d,
          movie_id = uuid, createdAt = now, updatedAt = now\<rparr>"
  by (simp add: getMovie_createMovie) (simp add: createMovie_def Let_def)

theorem create_then_get_witness:
  "getMovie (snd (createMovie store3 uuid_a 40 dune)) uuid_a
     = Some \<lparr>title = ''Dune'', type = ''Movie'', director = ''Denis Villeneuve'',
             budget = ''$165M'', location = ''Jordan'', duration = ''155 min'',
             yearTime = ''2021'', movie_id = uuid_a, createdAt = 40, updatedAt = 40\<rparr>"
proof -
  have created: "fst (createMovie store3 uuid_a 40 dune)
      = \<lparr>title = title dune, type = type dune, director = director dune, budget = budget dune,
         location = location dune, duration = duration dune, yearTime = yearTime dune,
         movie_id = uuid_a, createdAt = 40, updatedAt = 40\<rparr>"
    using create_then_get [of store3 uuid_a 40 dune] by (rule conjunct2)
  have "getMovie (snd (createMovie store3 uuid_a 40 dune))
          (movie_id (fst (createMovie store3 uuid_a 40 dune)))
          = Some (fst (createMovie store3 uuid_a 40 dune))"
    using create_then_get [of store3 uuid_a 40 dune] by (rule conjunct1)
  then show ?thesis
    unfolding created by (simp add: dune_def)
qed

section \<open>The routes on one id\<close>

lemma uuid_a_ok: "uuidRegex uuid_a"
  by (simp add: uuidRegex_def uuid_a_def is_hex_def)

lemma uuid_b_ok: "uuidRegex uuid_b"
  by (simp add: uuidRegex_def uuid_b_def is_hex_def)

lemma delete_movie_present:
  "uuidRegex ident \<Longrightarrow> getMovie s ident = Some m \<Longrightarrow>
     delete_movie s ident
       = (success 200 ''Movie deleted successfully'' JsonNull None, deleteMovie s ident)"
  by (simp add: delete_movie_def idParamSchema_safeParse_def)

lemma delete_movie_absent:
  "uuidRegex ident \<Longrightarrow> getMovie s ident = None \<Longrightarrow> delete_movie s ident = (notFound, s)"
  by (simp add: delete_movie_def idParamSchema_safeParse_def)

text \<open>
  C5: \<open>DELETE /api/movies/:id\<close> for a well-formed id that is in the store answers
  200 (with \<open>data: null\<close>) and removes the entry; the same request again answers
  404. In the store, \<open>deleteMovie\<close> on an absent id leaves the collection unchanged.
\<close>

theorem delete_twice:
  assumes "uuidRegex ident" and "getMovie s ident \<noteq> None"
  shows "code (fst (delete_movie s ident)) = 200
       \<and> data (fst (delete_movie s ident)) = Some JsonNull
       \<and> getMovie (snd (delete_movie s ident)) ident = None
       \<and> code (fst (delete_movie (snd (delete_movie s ident)) ident)) = 404
       \<and> (\<forall>s' k. getMovie s' k = None \<longrightarrow> deleteMovie s' k = s')"
proof -
  obtain m where "getMovie s ident = Some m"
    using assms(2) by blast
  then have first: "delete_movie s ident
      = (success 200 ''Movie deleted successfully'' JsonNull None, deleteMovie s ident)"
    using assms(1) by (simp add: delete_movie_present)
  have gone: "getMovie (deleteMovie s ident) ident = None"
    by (simp add: getMovie_deleteMovie)
  then have second: "delete_movie (deleteMovie s ident) ident = (notFound, deleteMovie s ident)"
    using assms(1) by (simp add: delete_movie_absent)
  have "code (fst (delete_movie s ident)) = 200"
    and "data (fst (delete_movie s ident)) = Some JsonNull"
    by (simp_all add: first success_def)
  moreover have "getMovie (snd (delete_movie s ident)) ident = None"
    by (simp add: first gone)
  moreover have "code (fst (delete_movie (snd (delete_movie s ident)) ident)) = 404"
    by (simp add: first second notFound_def)
  moreover have "\<forall>s' k. getMovie s' k = None \<longrightarrow> deleteMovie s' k = s'"
    by (simp add: deleteMovie_absent)
  ultimately show ?thesis by blast
qed

lemma store3_get_b: "getMovie store3 uuid_b \<noteq> None"
  by (simp add: getMovie_def map_get_def store3_def createMovie_def newMemStorage_def Let_def
        uuid_a_def uuid_b_def uuid_c_def)

theorem delete_twice_witness:
  "uuidRegex uuid_b \<and> getMovie store3 uuid_b \<noteq> None
     \<and> code (fst (delete_movie store3 uuid_b)) = 200
     \<and> code (fst (delete_movie (snd (delete_movie store3 uuid_b)) uuid_b)) = 404"
  using delete_twice [OF uuid_b_ok store3_get_b] uuid_b_ok store3_get_b by simp

section \<open>The update route\<close>

lemma updateSchema_empty_body:
  "updateSchema_safeParse (JObj [])
     = Inl [([], Custom ''At least one field must be provided for update'')]"
  by (simp add: updateSchema_safeParse_def zObject_issues_def insertMovieShape_def zOptional_def
        prop_string_def object_keys_length_def)

lemma put_movie_empty_body:
  "uuidRegex ident \<Longrightarrow>
     put_movie s now ident (JObj [])
       = (failure 400 ''Validation failed''
            [([], Custom ''At least one field must be provided for update'')], s)"
  by (simp add: put_movie_def idParamSchema_safeParse_def updateSchema_empty_body)

lemma put_movie_unknown_id:
  "uuidRegex ident \<Longrightarrow> updateSchema_safeParse body = Inr d \<Longrightarrow> getMovie s ident = None \<Longrightarrow>
     put_movie s now ident body = (notFound, s)"
  by (simp add: put_movie_def idParamSchema_safeParse_def)

text \<open>
  The status codes of the two failures of the update route: with a well-formed id and
  the empty body \<open>{}\<close> the answer is 400, and with a well-formed id that is not in
  the store and a body that passes the update schema it is 404; in both cases the
  store is left as it was.
\<close>

lemma put_movie_failures:
  assumes "uuidRegex ident"
  shows "code (fst (put_movie s now ident (JObj []))) = 400
       \<and> snd (put_movie s now ident (JObj [])) = s
       \<and> (\<forall>body d. updateSchema_safeParse body = Inr d \<longrightarrow> getMovie s ident = None \<longrightarrow>
              code (fst (put_movie s now ident body)) = 404
            \<and> snd (put_movie s now ident body) = s)"
  using assms
  by (simp add: put_movie_empty_body put_movie_unknown_id failure_def notFound_def)

lemma budget_body_ok:
  "updateSchema_safeParse (JObj [(''budget'', JStr ''$1M'')]) = Inr budget_only"
  by (simp add: updateSchema_safeParse_def zObject_issues_def insertMovieShape_def zOptional_def
        zString_def prop_string_def object_keys_length_def budget_only_def)

lemma empty_get_a: "getMovie newMemStorage uuid_a = None"
  by (simp add: getMovie_def map_get_def newMemStorage_def)

section \<open>The type field\<close>

lemma zEnum_accepts:
  "zEnum literals msg v = [] \<longleftrightarrow> (\<exists>s. v = Some (JStr s) \<and> s \<in> set literals)"
  by (auto simp: zEnum_def split: option.splits json.splits)

lemma no_member_iff_Nil: "(\<forall>m. m \<notin> set xs) \<longleftrightarrow> xs = []"
  by (cases xs) auto

lemma type_issue_insert:
  "([''type''], m) \<in> set (zObject_issues insertMovieShape props)
     \<longleftrightarrow> m \<in> set (zEnum [''Movie'', ''TV Show'']
                      (Custom ''Type must be either Movie or TV Show'') (map_of props ''type''))"
  by (auto simp: zObject_issues_def insertMovieShape_def)

lemma type_issue_update:
  "([''type''], m)
       \<in> set (zObject_issues (map (\<lambda>(k, check). (k, zOptional check)) insertMovieShape) props)
     \<longleftrightarrow> m \<in> set (zOptional (zEnum [''Movie'', ''TV Show'']
                      (Custom ''Type must be either Movie or TV Show'')) (map_of props ''type''))"
  by (auto simp: zObject_issues_def insertMovieShape_def)

lemma issues_of_insert:
  "issues_of (insertMovieSchema_safeParse (JObj props)) = zObject_issues insertMovieShape props"
  by (simp add: issues_of_def insertMovieSchema_safeParse_def split: list.splits)

lemma type_issue_of_update:
  "([''type''], m) \<in> set (issues_of (updateSchema_safeParse (JObj props)))
     \<longleftrightarrow> ([''type''], m)
           \<in> set (zObject_issues (map (\<lambda>(k, check). (k, zOptional check)) insertMovieShape) props)"
  by (simp add: issues_of_def updateSchema_safeParse_def Let_def split: list.splits)

lemma type_ok_insert:
  "(\<forall>m. ([''type''], m) \<notin> set (issues_of (insertMovieSchema_safeParse (JObj props))))
     \<longleftrightarrow> map_of props ''type'' = Some (JStr ''Movie'')
         \<or> map_of props ''type'' = Some (JStr ''TV Show'')"
proof -
  have "(\<forall>m. ([''type''], m) \<notin> set (issues_of (insertMovieSchema_safeParse (JObj props))))
          \<longleftrightarrow> zEnum [''Movie'', ''TV Show''] (Custom ''Type must be either Movie or TV Show'')
                (map_of props ''type'') = []"
    by (simp only: issues_of_insert type_issue_insert no_member_iff_Nil)
  also have "\<dots> \<longleftrightarrow> map_of props ''type'' = Some (JStr ''Movie'')
                    \<or> map_of props ''type'' = Some (JStr ''TV Show'')"
    by (auto simp: zEnum_accepts)
  finally show ?thesis .
qed

lemma type_ok_update:
  "(\<forall>m. ([''type''], m) \<notin> set (issues_of (updateSchema_safeParse (JObj props))))
     \<longleftrightarrow> map_of props ''type'' = None
         \<or> map_of props ''type'' = Some (JStr ''Movie'')
         \<or> map_of props ''type'' = Some (JStr ''TV Show'')"
proof -
  have "(\<forall>m. ([''type''], m) \<notin> set (issues_of (updateSchema_safeParse (JObj props))))
          \<longleftrightarrow> zOptional (zEnum [''Movie'', ''TV Show'']
                  (Custom ''Type must be either Movie or TV Show'')) (map_of props ''type'') = []"
    by (simp only: type_issue_of_update type_issue_update no_member_iff_Nil)
  also have "\<dots> \<longleftrightarrow> map_of props ''type'' = None
                    \<or> map_of props ''type'' = Some (JStr ''Movie'')
                    \<or> map_of props ''type'' = Some (JStr ''TV Show'')"
    by (auto simp: zOptional_def zEnum_accepts split: option.splits)
  finally show ?thesis .
qed

lemma post_movies_bad_type:
  assumes "map_of props ''type'' \<noteq> Some (JStr ''Movie'')"
    and "map_of props ''type'' \<noteq> Some (JStr ''TV Show'')"
  shows "code (fst (post_movies s uuid now (JObj props))) = 400"
proof -
  obtain m where "([''type''], m) \<in> set (issues_of (insertMovieSchema_safeParse (JObj props)))"
    using assms type_ok_insert [of props] by blast
  then obtain issues where "insertMovieSchema_safeParse (JObj props) = Inl issues"
    by (cases "insertMovieSchema_safeParse (JObj props)") (simp_all add: issues_of_def)
  then show ?thesis
    by (simp add: post_movies_def failure_def)
qed

lemma put_movie_bad_type:
  assumes "map_of props ''type'' \<noteq> None"
    and "map_of props ''type'' \<noteq> Some (JStr ''Movie'')"
    and "map_of props ''type'' \<noteq> Some (JStr ''TV Show'')"
  shows "code (fst (put_movie s now param (JObj props))) = 400"
proof (cases "uuidRegex param")
  case False
  then show ?thesis
    by (simp add: put_movie_def idParamSchema_safeParse_def failure_def)
next
  case True
  have "\<not> (\<forall>m. ([''type''], m) \<notin> set (issues_of (updateSchema_safeParse (JObj props))))"
    using assms by (simp only: type_ok_update) simp
  then obtain m where "([''type''], m) \<in> set (issues_of (updateSchema_safeParse (JObj props)))"
    by blast
  then obtain issues where "updateSchema_safeParse (JObj props) = Inl issues"
    by (cases "updateSchema_safeParse (JObj props)") (simp_all add: issues_of_def)
  then show ?thesis
    using True by (simp add: put_movie_def idParamSchema_safeParse_def failure_def)
qed

text \<open>
  C6, as the schema has it: the type field accepts exactly the two literal strings
  \<open>Movie\<close> and \<open>TV Show\<close>. A create body raises no issue on \<open>type\<close> if and only if
  its \<open>type\<close> is one of the two strings; an update body raises none if and only if it
  has no \<open>type\<close> or its \<open>type\<close> is one of the two; and a create or update request
  whose body carries any other \<open>type\<close> is answered with 400.
\<close>

theorem type_field_literals:
  "((\<forall>m. ([''type''], m) \<notin> set (issues_of (insertMovieSchema_safeParse (JObj props))))
      \<longleftrightarrow> map_of props ''type'' = Some (JStr ''Movie'')
          \<or> map_of props ''type'' = Some (JStr ''TV Show''))
   \<and> ((\<forall>m. ([''type''], m) \<notin> set (issues_of (updateSchema_safeParse (JObj props))))
      \<longleftrightarrow> map_of props ''type'' = None
          \<or> map_of props ''type'' = Some (JStr ''Movie'')
          \<or> map_of props ''type'' = Some (JStr ''TV Show''))
   \<and> (map_of props ''type'' \<noteq> Some (JStr ''Movie'')
        \<longrightarrow> map_of props ''type'' \<noteq> Some (JStr ''TV Show'')
        \<longrightarrow> code (fst (post_movies s uuid now (JObj props))) = 400)
   \<and> (map_of props ''type'' \<noteq> None
        \<longrightarrow> map_of props ''type'' \<noteq> Some (JStr ''Movie'')
        \<longrightarrow> map_of props ''type'' \<noteq> Some (JStr ''TV Show'')
        \<longrightarrow> code (fst (put_movie s now param (JObj props))) = 400)"
  using type_ok_insert [of props] type_ok_update [of props]
    post_movies_bad_type [of props s uuid now] put_movie_bad_type [of props s now param]
  by blast

theorem type_field_literals_witness:
  "map_of [(''type'', JStr ''Film'')] ''type'' \<noteq> None
     \<and> map_of [(''type'', JStr ''Film'')] ''type'' \<noteq> Some (JStr ''Movie'')
     \<and> map_of [(''type'', JStr ''Film'')] ''type'' \<noteq> Some (JStr ''TV Show'')
     \<and> code (fst (post_movies store3 uuid_a 30 (JObj [(''type'', JStr ''Film'')]))) = 400
     \<and> code (fst (put_movie store3 30 uuid_a (JObj [(''type'', JStr ''Film'')]))) = 400"
  using type_field_literals [of "[(''type'', JStr ''Film'')]" store3 uuid_a 30 uuid_a]
  by simp

text \<open>
  The literal \<open>TVShow\<close> of the specification is not accepted, and \<open>TV Show\<close>, which is
  not one of the specification's two literals, is: the first create request is
  answered 400 with the message of the type field among the field errors, the second
  201.
\<close>

theorem type_TVShow_counterexample:
  "code (fst (post_movies newMemStorage uuid_a 5 tvshow_body)) = 400
     \<and> errors (fst (post_movies newMemStorage uuid_a 5 tvshow_body))
         = Some [(''type'', [Custom ''Type must be either Movie or TV Show''])]
     \<and> code (fst (post_movies newMemStorage uuid_a 5 tv_show_body)) = 201"
  by (simp add: post_movies_def insertMovieSchema_safeParse_def tvshow_body_def tv_show_body_def
        zObject_issues_def insertMovieShape_def zString_def zEnum_def failure_def success_def
        fieldErrors_def createMovie_def Let_def)

section \<open>Timestamps\<close>


lemma set_map_delete: "kv \<in> set (map_delete k m) \<Longrightarrow> kv \<in> set m"
  by (simp add: map_delete_def)














section \<open>Generated ids\<close>

lemma is_hex_hex_digit: "n < 16 \<Longrightarrow> is_hex (hex_digit n)"
proof -
  assume "n < 16"
  then have "''0123456789abcdef'' ! n \<in> set ''0123456789abcdef''"
    by (intro nth_mem) simp
  then show ?thesis
    by (auto simp: is_hex_def hex_digit_def)
qed

lemma hex_byte_hex: "list_all is_hex (hex_byte b)"
proof -
  have "unat b < 2 ^ LENGTH(8)"
    by (rule unsigned_less)
  then have "unat b div 16 < 16" and "unat b mod 16 < 16"
    by simp_all
  then show ?thesis
    by (simp add: hex_byte_def is_hex_hex_digit)
qed

lemma length_hex_byte: "length (hex_byte b) = 2"
  by (simp add: hex_byte_def)

lemma hex_bytes_hex: "list_all is_hex (hex_bytes bs)"
  by (induction bs) (simp_all add: hex_bytes_def hex_byte_hex)

lemma length_hex_bytes: "length (hex_bytes bs) = 2 * length bs"
  by (induction bs) (simp_all add: hex_bytes_def length_hex_byte)

lemma hex_groups_last: "length g = n \<Longrightarrow> list_all is_hex g \<Longrightarrow> hex_groups [n] g"
  by simp

lemma hex_groups_cons:
  "length g = n \<Longrightarrow> list_all is_hex g \<Longrightarrow>
     hex_groups (n # n' # ns) (g @ CHR ''-'' # rest) = hex_groups (n' # ns) rest"
  by (simp add: nth_append)

lemma randomUUID_matches:
  assumes "length rnd = 16"
  shows "uuidRegex (randomUUID rnd)"
proof -
  define b where "b = rnd[6 := or (and (rnd ! 6) 0x0f) 0x40, 8 := or (and (rnd ! 8) 0x3f) 0x80]"
  have len: "length b = 16"
    using assms by (simp add: b_def)
  have l1: "length (hex_bytes (take 4 b)) = 8"
    and l2: "length (hex_bytes (take 2 (drop 4 b))) = 4"
    and l3: "length (hex_bytes (take 2 (drop 6 b))) = 4"
    and l4: "length (hex_bytes (take 2 (drop 8 b))) = 4"
    and l5: "length (hex_bytes (take 6 (drop 10 b))) = 12"
    by (simp_all add: length_hex_bytes len)
  have "hex_groups [8, 4, 4, 4, 12]
          (hex_bytes (take 4 b) @ CHR ''-'' # hex_bytes (take 2 (drop 4 b)) @ CHR ''-''
           # hex_bytes (take 2 (drop 6 b)) @ CHR ''-'' # hex_bytes (take 2 (drop 8 b)) @ CHR ''-''
           # hex_bytes (take 6 (drop 10 b)))"
    by (simp only: hex_groups_cons [OF l1 hex_bytes_hex] hex_groups_cons [OF l2 hex_bytes_hex]
          hex_groups_cons [OF l3 hex_bytes_hex] hex_groups_cons [OF l4 hex_bytes_hex]
          hex_groups_last [OF l5 hex_bytes_hex])
  then show ?thesis
    by (simp add: uuidRegex_def randomUUID_def Let_def b_def)
qed

text \<open>
  The version and the variant of a generated id: the first digit of the third group is
  \<open>4\<close> and the first digit of the fourth group is one of \<open>8\<close>, \<open>9\<close>, \<open>a\<close>, \<open>b\<close>.
  So a generated id also passes patterns that constrain these two digits.
\<close>

lemma and_0x0f: "and (x :: 8 word) 0x0f = take_bit 4 x"
proof -
  have "(0x0f :: 8 word) = mask 4"
    by (simp add: mask_eq_exp_minus_1)
  then show ?thesis
    by (simp only: take_bit_eq_mask)
qed

lemma and_0x3f: "and (x :: 8 word) 0x3f = take_bit 6 x"
proof -
  have "(0x3f :: 8 word) = mask 6"
    by (simp add: mask_eq_exp_minus_1)
  then show ?thesis
    by (simp only: take_bit_eq_mask)
qed

lemma high_digit: "unat (b :: 8 word) div 16 = unat (drop_bit 4 b)"
  by (simp add: drop_bit_eq_div unat_div)

lemma version_bits: "drop_bit 4 (or (and (x :: 8 word) 0x0f) 0x40) = 4"
  by (simp only: and_0x0f, rule bit_word_eqI) (auto simp: bit_simps)

lemma variant_value:
  "unat (or (and (x :: 8 word) 0x3f) 0x80) = 128 + unat x mod 64"
proof -
  define y where "y = take_bit 6 x"
  have small: "unat y = unat x mod 64"
    by (simp add: y_def take_bit_eq_mod unat_mod)
  have "\<not> bit y 7"
    by (simp add: y_def bit_take_bit_iff)
  then have "set_bit 7 y = y + 2 ^ 7"
    by (simp add: set_bit_eq)
  moreover have "set_bit 7 y = or y (push_bit 7 1)"
    by (rule set_bit_eq_or)
  ultimately have "or y 0x80 = y + 0x80"
    by simp
  moreover have "unat (y + 0x80) = unat y + unat (0x80 :: 8 word)"
    using small by (subst unat_add_lem [symmetric]) simp
  ultimately show ?thesis
    by (simp add: and_0x3f y_def [symmetric] small)
qed

lemma version_digit: "hex_byte (or (and x 0x0f) 0x40) ! 0 = CHR ''4''"
  by (simp add: hex_byte_def high_digit version_bits hex_digit_def)

lemma variant_digit: "hex_byte (or (and x 0x3f) 0x80) ! 0 \<in> set ''89ab''"
proof -
  let ?n = "(128 + unat x mod 64) div 16"
  have "8 \<le> ?n" and "?n < 12"
    by simp_all
  then have "?n = 8 \<or> ?n = 9 \<or> ?n = 10 \<or> ?n = 11"
    by arith
  then show ?thesis
    by (elim disjE) (simp_all add: hex_byte_def variant_value hex_digit_def)
qed

lemma list_update_Cons_numeral:
  "(x # xs)[numeral n := y] = x # xs[pred_numeral n := y]"
  by (simp add: numeral_eq_Suc)

lemma sixteen_bytes:
  assumes "length (rnd :: 8 word list) = 16"
  obtains r0 r1 r2 r3 r4 r5 r6 r7 r8 r9 r10 r11 r12 r13 r14 r15
  where "rnd = [r0, r1, r2, r3, r4, r5, r6, r7, r8, r9, r10, r11, r12, r13, r14, r15]"
  using assms by (auto simp: numeral_eq_Suc length_Suc_conv)

lemma randomUUID_version_variant:
  assumes "length rnd = 16"
  shows "randomUUID rnd ! 14 = CHR ''4'' \<and> randomUUID rnd ! 19 \<in> set ''89ab''"
proof -
  obtain r0 r1 r2 r3 r4 r5 r6 r7 r8 r9 r10 r11 r12 r13 r14 r15
    where rnd: "rnd = [r0, r1, r2, r3, r4, r5, r6, r7, r8, r9, r10, r11, r12, r13, r14, r15]"
    using assms by (rule sixteen_bytes)
  have "randomUUID rnd ! 14 = hex_byte (or (and r6 0x0f) 0x40) ! 0"
    and "randomUUID rnd ! 19 = hex_byte (or (and r8 0x3f) 0x80) ! 0"
    by (simp_all add: rnd randomUUID_def Let_def hex_bytes_def hex_byte_def
          list_update_Cons_numeral)
  then show ?thesis
    by (simp only: version_digit variant_digit simp_thms)
qed

lemma randomUUID_zero:
  "randomUUID zero_bytes = ''00000000-0000-4000-8000-000000000000''"
  by (simp add: randomUUID_def zero_bytes_def Let_def hex_bytes_def hex_byte_def hex_digit_def
        list_update_Cons_numeral)

lemma get_movie_present:
  "uuidRegex ident \<Longrightarrow> getMovie s ident = Some m \<Longrightarrow>
     get_movie s ident = success 200 ''Movie retrieved successfully'' (OneMovie m) None"
  by (simp add: get_movie_def idParamSchema_safeParse_def)

lemma put_movie_message:
  assumes "uuidRegex ident"
  shows "message (fst (put_movie s t ident body)) \<noteq> ''Invalid movie ID format''"
proof (cases "updateSchema_safeParse body")
  case (Inl issues)
  then show ?thesis
    using assms by (simp add: put_movie_def idParamSchema_safeParse_def failure_def)
next
  case (Inr upd)
  show ?thesis
  proof (cases "getMovie s ident")
    case None
    then show ?thesis
      using assms Inr by (simp add: put_movie_unknown_id notFound_def)
  next
    case (Some existing)
    then show ?thesis
      using assms Inr
      by (simp add: put_movie_def idParamSchema_safeParse_def updateMovie_present success_def)
  qed
qed

lemma put_movie_present:
  "uuidRegex ident \<Longrightarrow> updateSchema_safeParse body = Inr upd \<Longrightarrow> getMovie s ident = Some m \<Longrightarrow>
     code (fst (put_movie s t ident body)) = 200"
  by (simp add: put_movie_def idParamSchema_safeParse_def updateMovie_present success_def)

text \<open>
  C10: the id that \<open>createMovie\<close> stores, the string \<open>randomUUID\<close> prints for sixteen
  random bytes, passes the id check of the routes (and has version digit \<open>4\<close> and a
  variant digit among \<open>8\<close>, \<open>9\<close>, \<open>a\<close>, \<open>b\<close>). So for the created entry
  \<open>GET /api/movies/:id\<close> answers 200 with the entry, \<open>DELETE\<close> answers 200, and
  \<open>PUT\<close> never answers with \<open>Invalid movie ID format\<close> and answers 200 for every body
  that passes the update schema.
\<close>

theorem created_id_addressable:
  assumes "length rnd = 16"
  shows "case createMovie s (randomUUID rnd) now d of (created, s') \<Rightarrow>
           uuidRegex (movie_id created)
         \<and> movie_id created ! 14 = CHR ''4''
         \<and> movie_id created ! 19 \<in> set ''89ab''
         \<and> get_movie s' (movie_id created)
             = success 200 ''Movie retrieved successfully'' (OneMovie created) None
         \<and> code (fst (delete_movie s' (movie_id created))) = 200
         \<and> (\<forall>t body. message (fst (put_movie s' t (movie_id created) body))
                        \<noteq> ''Invalid movie ID format'')
         \<and> (\<forall>t body upd. updateSchema_safeParse body = Inr upd
                \<longrightarrow> code (fst (put_movie s' t (movie_id created) body)) = 200)"
proof -
  obtain created s' where c: "createMovie s (randomUUID rnd) now d = (created, s')"
    by (cases "createMovie s (randomUUID rnd) now d")
  have ident: "movie_id created = randomUUID rnd"
    using c by (auto simp: createMovie_def Let_def)
  have ok: "uuidRegex (movie_id created)"
    using assms by (simp add: ident randomUUID_matches)
  have digits: "movie_id created ! 14 = CHR ''4''" "movie_id created ! 19 \<in> set ''89ab''"
    using randomUUID_version_variant [OF assms] by (simp_all only: ident)
  have stored: "getMovie s' (movie_id created) = Some created"
    using getMovie_createMovie [of s "randomUUID rnd" now d "randomUUID rnd"]
    by (simp add: c ident)
  have "get_movie s' (movie_id created)
          = success 200 ''Movie retrieved successfully'' (OneMovie created) None"
    using ok stored by (rule get_movie_present)
  moreover have "code (fst (delete_movie s' (movie_id created))) = 200"
    using ok stored by (simp add: delete_movie_present success_def)
  moreover have "\<forall>t body. message (fst (put_movie s' t (movie_id created) body))
                        \<noteq> ''Invalid movie ID format''"
    using ok by (simp add: put_movie_message)
  moreover have "\<forall>t body upd. updateSchema_safeParse body = Inr upd
                \<longrightarrow> code (fst (put_movie s' t (movie_id created) body)) = 200"
    using ok stored by (simp add: put_movie_present)
  ultimately show ?thesis
    using ok digits by (simp only: c prod.case simp_thms)
qed

theorem created_id_addressable_witness:
  "length zero_bytes = 16
     \<and> movie_id (fst (createMovie store3 (randomUUID zero_bytes) 40 dune))
         = ''00000000-0000-4000-8000-000000000000''
     \<and> uuidRegex ''00000000-0000-4000-8000-000000000000''
     \<and> code (get_movie (snd (createMovie store3 (randomUUID zero_bytes) 40 dune))
               ''00000000-0000-4000-8000-000000000000'') = 200"
proof -
  have len: "length zero_bytes = 16"
    by (simp add: zero_bytes_def)
  have ident: "movie_id (fst (createMovie store3 (randomUUID zero_bytes) 40 dune))
         = ''00000000-0000-4000-8000-000000000000''"
    by (simp add: createMovie_def Let_def randomUUID_zero)
  have "uuidRegex (movie_id (fst (createMovie store3 (randomUUID zero_bytes) 40 dune)))"
    and "get_movie (snd (createMovie store3 (randomUUID zero_bytes) 40 dune))
           (movie_id (fst (createMovie store3 (randomUUID zero_bytes) 40 dune)))
         = success 200 ''Movie retrieved successfully''
             (OneMovie (fst (createMovie store3 (randomUUID zero_bytes) 40 dune))) None"
    using created_id_addressable [OF len, of store3 40 dune]
    by (simp_all add: split_beta)
  then show ?thesis
    using len by (simp add: ident success_def)
qed

section \<open>The empty update body\<close>

text \<open>
  C9 at the input where the route departs from it: \<open>PUT /api/movies/:id\<close> with the id
  of a stored entry and the empty body \<open>{}\<close>. The answer is 400 and the store is
  left as it was, but the message is \<open>Validation failed\<close> and the errors are the
  empty object. The message \<open>At least one field must be provided for update\<close>, which
  the route gives to its refinement, has the empty path; \<open>flatten()\<close> puts it among
  the form errors, and the route sends the field errors only.
\<close>

theorem put_movie_empty_body_answer:
  "uuidRegex uuid_a
     \<and> getMovie store3 uuid_a \<noteq> None
     \<and> put_movie store3 30 uuid_a (JObj [])
         = (\<lparr>code = 400, status = False, message = ''Validation failed'', data = None,
             pagination = None, errors = Some [], error_detail = None\<rparr>, store3)
     \<and> formErrors (issues_of (updateSchema_safeParse (JObj [])))
         = [Custom ''At least one field must be provided for update'']"
  using uuid_a_ok store3_get_a
  by (simp add: put_movie_empty_body updateSchema_empty_body failure_def fieldErrors_def
        formErrors_def issues_of_def)

end
